theory Spec2Isabelle
  imports Main "HOL-Library.Word"
begin

unbundle bit_operations_syntax

section \<open>The packet inspector of unfair\_runtime.c\<close>

text \<open>
  The repository holds the BPF program twice, in \<^verbatim>\<open>src/runtime/unfair_runtime.c\<close> and in
  \<^verbatim>\<open>src/unfair/runtime/unfair_runtime.c\<close>. Both define one entry point,
  \<^verbatim>\<open>trace_tcp_rcv(ctx, sk, skb)\<close>, which reads the IPv4 and TCP headers of a socket
  buffer, fills a \<^verbatim>\<open>struct pkt_t\<close> and hands it to \<^verbatim>\<open>pkts.perf_submit\<close>. The two
  bodies are embedded one after the other below, line by line.
\<close>

subsection \<open>Machine types and the host byte order\<close>

type_synonym u8 = "8 word"
type_synonym u16 = "16 word"
type_synonym u32 = "32 word"
type_synonym u64 = "64 word"

text \<open>
  The value of the preprocessor symbol \<^verbatim>\<open>__BYTE_ORDER\<close>: the program is compiled for one
  of the two and its \<^verbatim>\<open>#if\<close> branches select on it.
\<close>

datatype byte_order = LITTLE_ENDIAN | BIG_ENDIAN

text \<open>
  Kernel memory as seen from the pointer \<^verbatim>\<open>skb->head\<close>: the byte at each offset. A
  pointer into the buffer is its offset from \<^verbatim>\<open>head\<close>.
\<close>

type_synonym memory = "nat \<Rightarrow> u8"

definition mem_of :: "u8 list \<Rightarrow> memory" where
  "mem_of bs = (\<lambda>i. if i < length bs then bs ! i else 0)"

text \<open>The two readings of a multi-byte field that starts at offset \<open>a\<close>.\<close>

definition get_be16 :: "memory \<Rightarrow> nat \<Rightarrow> u16" where
  "get_be16 m a = push_bit 8 (ucast (m a)) OR ucast (m (a + 1))"

definition get_le16 :: "memory \<Rightarrow> nat \<Rightarrow> u16" where
  "get_le16 m a = ucast (m a) OR push_bit 8 (ucast (m (a + 1)))"

definition get_be32 :: "memory \<Rightarrow> nat \<Rightarrow> u32" where
  "get_be32 m a =
     push_bit 24 (ucast (m a)) OR push_bit 16 (ucast (m (a + 1))) OR
     push_bit 8 (ucast (m (a + 2))) OR ucast (m (a + 3))"

definition get_le32 :: "memory \<Rightarrow> nat \<Rightarrow> u32" where
  "get_le32 m a =
     ucast (m a) OR push_bit 8 (ucast (m (a + 1))) OR
     push_bit 16 (ucast (m (a + 2))) OR push_bit 24 (ucast (m (a + 3)))"

text \<open>
  A C load of a field (\<^verbatim>\<open>ip->protocol\<close>, \<^verbatim>\<open>tcp->source\<close>, \<^verbatim>\<open>tcp->seq\<close>): the bytes are
  assembled in the host's byte order, whatever the \<^verbatim>\<open>__be16\<close>/\<^verbatim>\<open>__be32\<close> annotation
  of the field says.
\<close>

definition load_u8 :: "memory \<Rightarrow> nat \<Rightarrow> u8" where
  "load_u8 m a = m a"

definition load_u16 :: "byte_order \<Rightarrow> memory \<Rightarrow> nat \<Rightarrow> u16" where
  "load_u16 bo m a = (case bo of LITTLE_ENDIAN \<Rightarrow> get_le16 m a | BIG_ENDIAN \<Rightarrow> get_be16 m a)"

definition load_u32 :: "byte_order \<Rightarrow> memory \<Rightarrow> nat \<Rightarrow> u32" where
  "load_u32 bo m a = (case bo of LITTLE_ENDIAN \<Rightarrow> get_le32 m a | BIG_ENDIAN \<Rightarrow> get_be32 m a)"

text \<open>\<^verbatim>\<open>bpf_probe_read(&dst, sizeof(u8), src)\<close>: one byte copied from \<open>src\<close>.\<close>

definition bpf_probe_read :: "memory \<Rightarrow> nat \<Rightarrow> u8" where
  "bpf_probe_read m src = m src"

text \<open>\<^verbatim>\<open>ntohs\<close> and \<^verbatim>\<open>htons\<close>: a byte swap on a little-endian host, nothing on a big-endian one.\<close>

definition swab16 :: "u16 \<Rightarrow> u16" where
  "swab16 x = push_bit 8 x OR drop_bit 8 x"

definition ntohs :: "byte_order \<Rightarrow> u16 \<Rightarrow> u16" where
  "ntohs bo x = (case bo of LITTLE_ENDIAN \<Rightarrow> swab16 x | BIG_ENDIAN \<Rightarrow> x)"

definition htons :: "byte_order \<Rightarrow> u16 \<Rightarrow> u16" where
  "htons bo x = (case bo of LITTLE_ENDIAN \<Rightarrow> swab16 x | BIG_ENDIAN \<Rightarrow> x)"

subsection \<open>Constants and layouts of the included kernel headers\<close>

text \<open>
  The program includes \<^verbatim>\<open>linux/ip.h\<close>, \<^verbatim>\<open>linux/tcp.h\<close>, \<^verbatim>\<open>linux/skbuff.h\<close> and
  \<^verbatim>\<open>net/sock.h\<close>. The constants and the byte offsets of the fields it names are those
  of these headers (the offsets are the ones of the IPv4 and TCP wire formats).
\<close>

definition AF_INET :: u16 where "AF_INET = 2"
definition ETH_P_IP :: u16 where "ETH_P_IP = 0x0800"
definition IPPROTO_TCP :: u8 where "IPPROTO_TCP = 6"

text \<open>\<^verbatim>\<open>struct iphdr\<close>: version/ihl byte 0, tos 1, tot\_len 2, protocol 9, saddr 12, daddr 16.\<close>

definition iphdr_tos :: nat where "iphdr_tos = 1"
definition iphdr_tot_len :: nat where "iphdr_tot_len = 2"
definition iphdr_protocol :: nat where "iphdr_protocol = 9"
definition iphdr_saddr :: nat where "iphdr_saddr = 12"
definition iphdr_daddr :: nat where "iphdr_daddr = 16"

text \<open>
  \<^verbatim>\<open>struct tcphdr\<close>: source 0, dest 2, seq 4, ack\_seq 8, then the 16 bits that hold
  the data offset and the flags at 12 (the data offset is the high nibble of byte 12).
\<close>

definition tcphdr_source :: nat where "tcphdr_source = 0"
definition tcphdr_dest :: nat where "tcphdr_dest = 2"
definition tcphdr_seq :: nat where "tcphdr_seq = 4"
definition tcphdr_ack_seq :: nat where "tcphdr_ack_seq = 8"
definition tcphdr_doff :: nat where "tcphdr_doff = 12"

text \<open>Sizes of the pointees in the two pointer computations of the program.\<close>

definition sizeof_u8 :: nat where "sizeof_u8 = 1"
definition sizeof_be32 :: nat where "sizeof_be32 = 4"

subsection \<open>The data the program reads and writes\<close>

text \<open>
  \<^verbatim>\<open>struct sk_buff\<close>, the fields the program names, and \<^verbatim>\<open>tail\<close>, the offset from
  \<^verbatim>\<open>head\<close> at which the captured data ends (the program never reads it).
  \<^verbatim>\<open>protocol\<close> is the 16-bit value as the host loads it; \<^verbatim>\<open>tstamp\<close> is the
  \<^verbatim>\<open>ktime_t\<close> (a signed 64-bit count of nanoseconds) as its 64 bits.
\<close>

record sk_buff =
  protocol :: u16
  head :: memory
  network_header :: u16
  transport_header :: u16
  tail :: u32
  tstamp :: u64

text \<open>
  \<^verbatim>\<open>struct sock\<close> / \<^verbatim>\<open>struct tcp_sock\<close> (\<^verbatim>\<open>tcp_sk(sk)\<close> is a cast): the address
  family, the smoothed RTT kept by the TCP stack and the last timestamp option received.
  The field \<^verbatim>\<open>srtt_us\<close> of \<^verbatim>\<open>tcp_sock\<close> is called \<open>ts_srtt_us\<close> here, since the output
  record has a field of the same name.
\<close>

record sock =
  skc_family :: u16
  ts_srtt_us :: u32
  rcv_tsval :: u32
  rcv_tsecr :: u32

text \<open>
  \<^verbatim>\<open>struct pkt_t\<close>, with the field names of \<^verbatim>\<open>src/runtime/unfair_runtime.c\<close>. The file
  \<^verbatim>\<open>src/unfair/runtime/unfair_runtime.c\<close> declares the same layout, where the sizes are
  named \<^verbatim>\<open>total_bytes\<close>, \<^verbatim>\<open>ihl_bytes\<close>, \<^verbatim>\<open>thl_bytes\<close>, \<^verbatim>\<open>payload_bytes\<close> (written
  \<^verbatim>\<open>pkt.total_B\<close>, \<^verbatim>\<open>pkt.ihl_B\<close>, \<^verbatim>\<open>pkt.thl_B\<close>, \<^verbatim>\<open>pkt.payload_B\<close> in its function
  body) and the slot of \<^verbatim>\<open>iv\<close> is called \<^verbatim>\<open>padding\<close>.
\<close>

record pkt_t =
  saddr :: u32
  daddr :: u32
  sport :: u16
  dport :: u16
  seq :: u32
  srtt_us :: u32
  tsval :: u32
  tsecr :: u32
  total_b :: u32
  ihl_b :: u32
  thl_b :: u32
  payload_b :: u32
  iv :: u32
  time_us :: u64

subsection \<open>The header accessors\<close>

definition skb_to_iphdr :: "sk_buff \<Rightarrow> nat" where
  "skb_to_iphdr skb = unat (network_header skb)"

definition skb_to_tcphdr :: "sk_buff \<Rightarrow> nat" where
  "skb_to_tcphdr skb = unat (transport_header skb)"

subsection \<open>\<^verbatim>\<open>trace_tcp_rcv\<close> of src/runtime/unfair\_runtime.c\<close>

text \<open>
  The result is the record passed to \<^verbatim>\<open>pkts.perf_submit\<close>, or \<open>None\<close> when the function
  returns before it submits anything. The C function returns 0 on every path. The frame
  pointer \<^verbatim>\<open>skb\<close> may be \<^verbatim>\<open>NULL\<close> (\<open>None\<close>); the socket \<^verbatim>\<open>sk\<close> is dereferenced
  unconditionally by the source and is a valid socket here.
\<close>

definition trace_tcp_rcv_runtime :: "byte_order \<Rightarrow> sock \<Rightarrow> sk_buff option \<Rightarrow> pkt_t option" where
  "trace_tcp_rcv_runtime bo sk skb_ptr =
     (case skb_ptr of
        None \<Rightarrow> None
      | Some skb \<Rightarrow>
          if skc_family sk \<noteq> AF_INET then None
          else if protocol skb \<noteq> htons bo ETH_P_IP then None
          else
            let m = head skb;
                ip = skb_to_iphdr skb
            in if load_u8 m (ip + iphdr_protocol) \<noteq> IPPROTO_TCP then None
               else
                 let tcp = skb_to_tcphdr skb;
                     sport' = load_u16 bo m (tcp + tcphdr_source);
                     dport' = load_u16 bo m (tcp + tcphdr_dest);
                     total_b' = load_u16 bo m (ip + iphdr_tot_len);
                     f = bpf_probe_read m ((ip + iphdr_tos) - 1 * sizeof_u8);
                     ihl = (case bo of
                              LITTLE_ENDIAN \<Rightarrow> drop_bit 4 (f AND 0xf0)
                            | BIG_ENDIAN \<Rightarrow> f AND 0x0f);
                     iv' = (case bo of
                              LITTLE_ENDIAN \<Rightarrow> f AND 0x0f
                            | BIG_ENDIAN \<Rightarrow> drop_bit 4 (f AND 0xf0));
                     thl0 = bpf_probe_read m ((tcp + tcphdr_ack_seq) + 4 * sizeof_be32);
                     thl = (case bo of
                              LITTLE_ENDIAN \<Rightarrow> drop_bit 4 (thl0 AND 0x0f)
                            | BIG_ENDIAN \<Rightarrow> drop_bit 4 (thl0 AND 0xf0));
                     pkt_total_b = (ucast (ntohs bo total_b') :: u32);
                     pkt_ihl_b = (ucast ihl :: u32) * 4;
                     pkt_thl_b = (ucast thl :: u32) * 4
                 in Some \<lparr> saddr = load_u32 bo m (ip + iphdr_saddr),
                           daddr = load_u32 bo m (ip + iphdr_daddr),
                           sport = ntohs bo sport',
                           dport = ntohs bo dport',
                           seq = load_u32 bo m (tcp + tcphdr_seq),
                           srtt_us = drop_bit 3 (ts_srtt_us sk),
                           tsval = rcv_tsval sk,
                           tsecr = rcv_tsecr sk,
                           total_b = pkt_total_b,
                           ihl_b = pkt_ihl_b,
                           thl_b = pkt_thl_b,
                           payload_b = pkt_total_b - pkt_ihl_b - pkt_thl_b,
                           iv = ucast iv',
                           time_us = tstamp skb div 1000000 \<rparr>)"

subsection \<open>\<^verbatim>\<open>trace_tcp_rcv\<close> of src/unfair/runtime/unfair\_runtime.c\<close>

text \<open>
  This body has no address-family test, reads the version/ihl byte into \<^verbatim>\<open>ihl\<close>
  itself, and leaves \<^verbatim>\<open>padding\<close> (the slot \<open>iv\<close>) at the 0 of the initialiser
  \<^verbatim>\<open>pkt = {}\<close>.
\<close>

definition trace_tcp_rcv_unfair :: "byte_order \<Rightarrow> sock \<Rightarrow> sk_buff option \<Rightarrow> pkt_t option" where
  "trace_tcp_rcv_unfair bo sk skb_ptr =
     (case skb_ptr of
        None \<Rightarrow> None
      | Some skb \<Rightarrow>
          if protocol skb \<noteq> htons bo ETH_P_IP then None
          else
            let m = head skb;
                ip = skb_to_iphdr skb
            in if load_u8 m (ip + iphdr_protocol) \<noteq> IPPROTO_TCP then None
               else
                 let tcp = skb_to_tcphdr skb;
                     sport' = load_u16 bo m (tcp + tcphdr_source);
                     dport' = load_u16 bo m (tcp + tcphdr_dest);
                     total_B = load_u16 bo m (ip + iphdr_tot_len);
                     ihl0 = bpf_probe_read m ((ip + iphdr_tos) - 1 * sizeof_u8);
                     ihl = (case bo of
                              LITTLE_ENDIAN \<Rightarrow> drop_bit 4 (ihl0 AND 0xf0)
                            | BIG_ENDIAN \<Rightarrow> ihl0 AND 0x0f);
                     thl0 = bpf_probe_read m ((tcp + tcphdr_ack_seq) + 4 * sizeof_be32);
                     thl = (case bo of
                              LITTLE_ENDIAN \<Rightarrow> drop_bit 4 (thl0 AND 0x0f)
                            | BIG_ENDIAN \<Rightarrow> drop_bit 4 (thl0 AND 0xf0));
                     pkt_total_B = (ucast (ntohs bo total_B) :: u32);
                     pkt_ihl_B = (ucast ihl :: u32) * 4;
                     pkt_thl_B = (ucast thl :: u32) * 4
                 in Some \<lparr> saddr = load_u32 bo m (ip + iphdr_saddr),
                           daddr = load_u32 bo m (ip + iphdr_daddr),
                           sport = ntohs bo sport',
                           dport = ntohs bo dport',
                           seq = load_u32 bo m (tcp + tcphdr_seq),
                           srtt_us = drop_bit 3 (ts_srtt_us sk),
                           tsval = rcv_tsval sk,
                           tsecr = rcv_tsecr sk,
                           total_b = pkt_total_B,
                           ihl_b = pkt_ihl_B,
                           thl_b = pkt_thl_B,
                           payload_b = pkt_total_B - pkt_ihl_B - pkt_thl_B,
                           iv = 0,
                           time_us = tstamp skb div 1000000 \<rparr>)"

subsection \<open>Concrete frames\<close>

text \<open>
  A 54-byte Ethernet frame holding a pure ACK: 14 bytes of link header, an IPv4 header
  (version 4, IHL 5, total length 40, protocol 6, 10.0.0.1 to 10.0.0.2) and a TCP header
  (ports 12345 to 80, sequence number 1, data offset 5, flag ACK).
\<close>

definition ack_frame :: "u8 list" where
  "ack_frame =
     [0x02, 0x00, 0x00, 0x00, 0x00, 0x02, 0x02, 0x00, 0x00, 0x00, 0x00, 0x01, 0x08, 0x00,
      0x45, 0x00, 0x00, 0x28, 0x00, 0x00, 0x40, 0x00, 0x40, 0x06, 0x00, 0x00,
      0x0a, 0x00, 0x00, 0x01, 0x0a, 0x00, 0x00, 0x02,
      0x30, 0x39, 0x00, 0x50, 0x00, 0x00, 0x00, 0x01, 0x00, 0x00, 0x00, 0x00,
      0x50, 0x10, 0xff, 0xff, 0x00, 0x00, 0x00, 0x00]"

definition frame_skb :: "byte_order \<Rightarrow> u8 list \<Rightarrow> sk_buff" where
  "frame_skb bo bs =
     \<lparr> protocol = htons bo ETH_P_IP, head = mem_of bs, network_header = 14,
       transport_header = 34, tail = of_nat (length bs), tstamp = 1000000500 \<rparr>"

definition tcp_sock0 :: sock where
  "tcp_sock0 = \<lparr> skc_family = AF_INET, ts_srtt_us = 8005, rcv_tsval = 777, rcv_tsecr = 555 \<rparr>"

text \<open>
  The same frame as a UDP datagram (protocol 17), with a declared total length of 10,
  with an IHL nibble of 2, and cut after 24 captured bytes.
\<close>

definition udp_frame :: "u8 list" where
  "udp_frame = ack_frame[23 := 0x11]"

definition tiny_total_frame :: "u8 list" where
  "tiny_total_frame = ack_frame[17 := 0x0a]"

definition short_ihl_frame :: "u8 list" where
  "short_ihl_frame = ack_frame[14 := 0x42]"

definition truncated_frame :: "u8 list" where
  "truncated_frame = take 24 ack_frame"

text \<open>
  A data segment of declared total length 1500 whose TCP header has data offset 8: the
  20 fixed bytes, two NOPs and a timestamp option (TSval 0x12345678). Only the 66 bytes
  of the headers are captured.
\<close>

definition data_frame :: "u8 list" where
  "data_frame =
     [0x02, 0x00, 0x00, 0x00, 0x00, 0x02, 0x02, 0x00, 0x00, 0x00, 0x00, 0x01, 0x08, 0x00,
      0x45, 0x00, 0x05, 0xdc, 0x00, 0x00, 0x40, 0x00, 0x40, 0x06, 0x00, 0x00,
      0x0a, 0x00, 0x00, 0x01, 0x0a, 0x00, 0x00, 0x02,
      0x30, 0x39, 0x00, 0x50, 0x00, 0x00, 0x00, 0x01, 0x00, 0x00, 0x00, 0x00,
      0x80, 0x18, 0xff, 0xff, 0x00, 0x00, 0x00, 0x00,
      0x01, 0x01, 0x08, 0x0a, 0x12, 0x34, 0x56, 0x78, 0x00, 0x00, 0x00, 0x00]"

text \<open>A frame whose link-layer protocol is ARP (0x0806), not IPv4.\<close>

definition arp_skb :: "byte_order \<Rightarrow> sk_buff" where
  "arp_skb bo = (frame_skb bo ack_frame)\<lparr> protocol := htons bo 0x0806 \<rparr>"

text \<open>
  The records the two functions emit for \<open>ack_frame\<close> (the one of
  \<^verbatim>\<open>src/runtime/unfair_runtime.c\<close> differs in \<open>iv\<close> only) on a little-endian and on
  a big-endian host, and for \<open>tiny_total_frame\<close> on a little-endian host.
\<close>

definition ack_pkt_le :: pkt_t where
  "ack_pkt_le =
     \<lparr> saddr = 0x0100000a, daddr = 0x0200000a, sport = 12345, dport = 80,
       seq = 0x01000000, srtt_us = 1000, tsval = 777, tsecr = 555, total_b = 40,
       ihl_b = 16, thl_b = 0, payload_b = 24, iv = 0, time_us = 1000 \<rparr>"

definition ack_pkt_be :: pkt_t where
  "ack_pkt_be =
     \<lparr> saddr = 0x0a000001, daddr = 0x0a000002, sport = 12345, dport = 80,
       seq = 1, srtt_us = 1000, tsval = 777, tsecr = 555, total_b = 40,
       ihl_b = 20, thl_b = 0, payload_b = 20, iv = 0, time_us = 1000 \<rparr>"

definition tiny_pkt_le :: pkt_t where
  "tiny_pkt_le = ack_pkt_le \<lparr> total_b := 10, payload_b := 0xFFFFFFFA \<rparr>"

section \<open>Facts about the byte and nibble operations\<close>

text \<open>
  A byte swap of the little-endian reading of two bytes is their big-endian reading, so
  \<open>ntohs\<close> of a loaded 16-bit field is the value the wire format gives it on either host.
\<close>

lemma swab16_get_le16: "swab16 (get_le16 m a) = get_be16 m a"
  unfolding swab16_def get_le16_def get_be16_def
  by (rule bit_eqI) (auto simp: bit_simps dest: bit_imp_le_length)

lemma ntohs_load_u16: "ntohs bo (load_u16 bo m a) = get_be16 m a"
  by (cases bo) (simp_all add: ntohs_def load_u16_def swab16_get_le16)

lemma mask_0f: "(0x0f :: u8) = mask 4"
  by (simp add: mask_eq_exp_minus_1)

lemma mask_f0: "(0xf0 :: u8) = NOT (mask 4)"
  by (simp add: mask_eq_exp_minus_1)

lemma low_mask_shifted_out: "drop_bit 4 ((x::u8) AND 0x0f) = 0"
  unfolding mask_0f
  by (rule bit_eqI) (auto simp: bit_simps dest: bit_imp_le_length)

lemma unat_high_nibble: "unat (drop_bit 4 ((x::u8) AND 0xf0)) = unat x div 16"
proof -
  have "drop_bit 4 (x AND 0xf0) = drop_bit 4 x"
    unfolding mask_f0
    by (rule bit_eqI) (auto simp: bit_simps dest: bit_imp_le_length)
  then show ?thesis
    by (simp add: drop_bit_eq_div unat_div_distrib)
qed

lemma unat_low_nibble: "unat ((x::u8) AND 0x0f) = unat x mod 16"
proof -
  have "x AND 0x0f = take_bit 4 x"
    unfolding mask_0f by (simp add: take_bit_eq_mask)
  then show ?thesis
    by (simp add: take_bit_eq_mod unat_mod_distrib)
qed

lemma unat_u8_lt: "unat (x::u8) < 256"
  using unsigned_less [of x, where 'a = nat] by simp

lemma unat_u16_lt: "unat (x::u16) < 65536"
  using unsigned_less [of x, where 'a = nat] by simp

lemma unat_u8_to_u32: "unat (ucast (x::u8) :: u32) = unat x"
  by (simp add: unsigned_ucast_eq take_bit_eq_mod) (use unat_u8_lt [of x] in simp)

lemma unat_u16_to_u32: "unat (ucast (x::u16) :: u32) = unat x"
  by (simp add: unsigned_ucast_eq take_bit_eq_mod) (use unat_u16_lt [of x] in simp)

lemma unat_words_to_bytes: "unat ((ucast (x::u8) :: u32) * 4) = 4 * unat x"
proof -
  have "unat x < 256" by (rule unat_u8_lt)
  then show ?thesis
    by (simp add: unat_word_ariths unat_u8_to_u32)
qed

section \<open>What the two functions emit\<close>

text \<open>What an emitted record holds, field by field, for either source file.\<close>

lemma emitted_fields:
  assumes "trace_tcp_rcv_runtime bo sk skb_ptr = Some pkt \<or>
           trace_tcp_rcv_unfair bo sk skb_ptr = Some pkt"
  shows "\<exists>skb. skb_ptr = Some skb
    \<and> protocol skb = htons bo ETH_P_IP
    \<and> load_u8 (head skb) (skb_to_iphdr skb + iphdr_protocol) = IPPROTO_TCP
    \<and> sport pkt = ntohs bo (load_u16 bo (head skb) (skb_to_tcphdr skb + tcphdr_source))
    \<and> dport pkt = ntohs bo (load_u16 bo (head skb) (skb_to_tcphdr skb + tcphdr_dest))
    \<and> seq pkt = load_u32 bo (head skb) (skb_to_tcphdr skb + tcphdr_seq)
    \<and> srtt_us pkt = drop_bit 3 (ts_srtt_us sk)
    \<and> tsval pkt = rcv_tsval sk
    \<and> tsecr pkt = rcv_tsecr sk
    \<and> total_b pkt =
          ucast (ntohs bo (load_u16 bo (head skb) (skb_to_iphdr skb + iphdr_tot_len)))
    \<and> ihl_b pkt =
          ucast (case bo of
                   LITTLE_ENDIAN \<Rightarrow>
                     drop_bit 4 (bpf_probe_read (head skb)
                       ((skb_to_iphdr skb + iphdr_tos) - 1 * sizeof_u8) AND 0xf0)
                 | BIG_ENDIAN \<Rightarrow>
                     bpf_probe_read (head skb)
                       ((skb_to_iphdr skb + iphdr_tos) - 1 * sizeof_u8) AND 0x0f) * 4
    \<and> thl_b pkt =
          ucast (case bo of
                   LITTLE_ENDIAN \<Rightarrow>
                     drop_bit 4 (bpf_probe_read (head skb)
                       ((skb_to_tcphdr skb + tcphdr_ack_seq) + 4 * sizeof_be32) AND 0x0f)
                 | BIG_ENDIAN \<Rightarrow>
                     drop_bit 4 (bpf_probe_read (head skb)
                       ((skb_to_tcphdr skb + tcphdr_ack_seq) + 4 * sizeof_be32) AND 0xf0)) * 4
    \<and> payload_b pkt = total_b pkt - ihl_b pkt - thl_b pkt
    \<and> time_us pkt = tstamp skb div 1000000"
proof (cases skb_ptr)
  case None
  with assms show ?thesis
    by (simp add: trace_tcp_rcv_runtime_def trace_tcp_rcv_unfair_def)
next
  case (Some skb)
  from assms show ?thesis
  proof
    assume "trace_tcp_rcv_runtime bo sk skb_ptr = Some pkt"
    with Some show ?thesis
      by (cases bo) (auto simp: trace_tcp_rcv_runtime_def Let_def split: if_splits)
  next
    assume "trace_tcp_rcv_unfair bo sk skb_ptr = Some pkt"
    with Some show ?thesis
      by (cases bo) (auto simp: trace_tcp_rcv_unfair_def Let_def split: if_splits)
  qed
qed

text \<open>The two nibble decodings, whatever byte they are applied to.\<close>

lemma ihl_decoding:
  "unat ((ucast (case bo of LITTLE_ENDIAN \<Rightarrow> drop_bit 4 ((b::u8) AND 0xf0)
                          | BIG_ENDIAN \<Rightarrow> b AND 0x0f) :: u32) * 4) =
     (case bo of LITTLE_ENDIAN \<Rightarrow> 4 * (unat b div 16) | BIG_ENDIAN \<Rightarrow> 4 * (unat b mod 16))"
  by (cases bo) (simp_all only: byte_order.case unat_words_to_bytes unat_high_nibble unat_low_nibble)

lemma thl_decoding:
  "unat ((ucast (case bo of LITTLE_ENDIAN \<Rightarrow> drop_bit 4 ((b::u8) AND 0x0f)
                          | BIG_ENDIAN \<Rightarrow> drop_bit 4 (b AND 0xf0)) :: u32) * 4) =
     (case bo of LITTLE_ENDIAN \<Rightarrow> 0 | BIG_ENDIAN \<Rightarrow> 4 * (unat b div 16))"
  by (cases bo)
     (simp_all only: byte_order.case unat_words_to_bytes unat_high_nibble low_mask_shifted_out,
      simp)

lemma ihl_decoding_le_60:
  "unat ((ucast (case bo of LITTLE_ENDIAN \<Rightarrow> drop_bit 4 ((b::u8) AND 0xf0)
                          | BIG_ENDIAN \<Rightarrow> b AND 0x0f) :: u32) * 4) \<le> 60"
  unfolding ihl_decoding using unat_u8_lt [of b] by (cases bo) simp_all

lemma thl_decoding_le_60:
  "unat ((ucast (case bo of LITTLE_ENDIAN \<Rightarrow> drop_bit 4 ((b::u8) AND 0x0f)
                          | BIG_ENDIAN \<Rightarrow> drop_bit 4 (b AND 0xf0)) :: u32) * 4) \<le> 60"
  unfolding thl_decoding using unat_u8_lt [of b] by (cases bo) simp_all

lemma emitted_bounds:
  assumes "trace_tcp_rcv_runtime bo sk skb_ptr = Some pkt \<or>
           trace_tcp_rcv_unfair bo sk skb_ptr = Some pkt"
  shows "unat (total_b pkt) < 65536" and "unat (ihl_b pkt) \<le> 60" and "unat (thl_b pkt) \<le> 60"
proof -
  from emitted_fields [OF assms] obtain skb where
    total: "total_b pkt =
       ucast (ntohs bo (load_u16 bo (head skb) (skb_to_iphdr skb + iphdr_tot_len)))"
    and ihl: "ihl_b pkt =
          ucast (case bo of
                   LITTLE_ENDIAN \<Rightarrow>
                     drop_bit 4 (bpf_probe_read (head skb)
                       ((skb_to_iphdr skb + iphdr_tos) - 1 * sizeof_u8) AND 0xf0)
                 | BIG_ENDIAN \<Rightarrow>
                     bpf_probe_read (head skb)
                       ((skb_to_iphdr skb + iphdr_tos) - 1 * sizeof_u8) AND 0x0f) * 4"
    and thl: "thl_b pkt =
          ucast (case bo of
                   LITTLE_ENDIAN \<Rightarrow>
                     drop_bit 4 (bpf_probe_read (head skb)
                       ((skb_to_tcphdr skb + tcphdr_ack_seq) + 4 * sizeof_be32) AND 0x0f)
                 | BIG_ENDIAN \<Rightarrow>
                     drop_bit 4 (bpf_probe_read (head skb)
                       ((skb_to_tcphdr skb + tcphdr_ack_seq) + 4 * sizeof_be32) AND 0xf0)) * 4"
    by blast
  show "unat (total_b pkt) < 65536"
    unfolding total by (simp only: unat_u16_to_u32 unat_u16_lt)
  show "unat (ihl_b pkt) \<le> 60"
    unfolding ihl by (rule ihl_decoding_le_60)
  show "unat (thl_b pkt) \<le> 60"
    unfolding thl by (rule thl_decoding_le_60)
qed

subsection \<open>Evaluation on the concrete frames\<close>

lemmas frame_defs =
  frame_skb_def arp_skb_def tcp_sock0_def mem_of_def
  ack_frame_def udp_frame_def tiny_total_frame_def short_ihl_frame_def truncated_frame_def data_frame_def

lemmas code_defs =
  trace_tcp_rcv_unfair_def trace_tcp_rcv_runtime_def Let_def
  skb_to_iphdr_def skb_to_tcphdr_def load_u8_def load_u16_def load_u32_def bpf_probe_read_def
  get_be16_def get_le16_def get_be32_def get_le32_def ntohs_def htons_def swab16_def
  AF_INET_def ETH_P_IP_def IPPROTO_TCP_def
  iphdr_tos_def iphdr_tot_len_def iphdr_protocol_def iphdr_saddr_def iphdr_daddr_def
  tcphdr_source_def tcphdr_dest_def tcphdr_seq_def tcphdr_ack_seq_def tcphdr_doff_def
  sizeof_u8_def sizeof_be32_def

lemmas pkt_defs = ack_pkt_le_def ack_pkt_be_def tiny_pkt_le_def

lemma unfair_ack_le:
  "trace_tcp_rcv_unfair LITTLE_ENDIAN tcp_sock0 (Some (frame_skb LITTLE_ENDIAN ack_frame)) =
     Some ack_pkt_le"
  by (simp add: code_defs frame_defs pkt_defs)

lemma runtime_ack_le:
  "trace_tcp_rcv_runtime LITTLE_ENDIAN tcp_sock0 (Some (frame_skb LITTLE_ENDIAN ack_frame)) =
     Some (ack_pkt_le \<lparr> iv := 5 \<rparr>)"
  by (simp add: code_defs frame_defs pkt_defs)

lemma unfair_ack_be:
  "trace_tcp_rcv_unfair BIG_ENDIAN tcp_sock0 (Some (frame_skb BIG_ENDIAN ack_frame)) =
     Some ack_pkt_be"
  by (simp add: code_defs frame_defs pkt_defs)

lemma runtime_ack_be:
  "trace_tcp_rcv_runtime BIG_ENDIAN tcp_sock0 (Some (frame_skb BIG_ENDIAN ack_frame)) =
     Some (ack_pkt_be \<lparr> iv := 4 \<rparr>)"
  by (simp add: code_defs frame_defs pkt_defs)

lemma unfair_tiny_le:
  "trace_tcp_rcv_unfair LITTLE_ENDIAN tcp_sock0
     (Some (frame_skb LITTLE_ENDIAN tiny_total_frame)) = Some tiny_pkt_le"
  by (simp add: code_defs frame_defs pkt_defs)

lemma runtime_tiny_le:
  "trace_tcp_rcv_runtime LITTLE_ENDIAN tcp_sock0
     (Some (frame_skb LITTLE_ENDIAN tiny_total_frame)) = Some (tiny_pkt_le \<lparr> iv := 5 \<rparr>)"
  by (simp add: code_defs frame_defs pkt_defs)

subsection \<open>The filters\<close>

text \<open>
  The test on \<^verbatim>\<open>skb->protocol\<close> compares with \<^verbatim>\<open>htons(ETH_P_IP)\<close>; it holds exactly when the
  field, converted to host order, is the IPv4 EtherType. A frame that passes the tests
  is never dropped later.
\<close>

lemma swab16_swab16: "swab16 (swab16 x) = x"
  unfolding swab16_def
  by (rule bit_eqI) (auto simp: bit_simps dest: bit_imp_le_length)

lemma protocol_is_ipv4_iff: "protocol skb = htons bo ETH_P_IP \<longleftrightarrow> ntohs bo (protocol skb) = ETH_P_IP"
proof (cases bo)
  case LITTLE_ENDIAN
  then show ?thesis
    by (simp add: htons_def ntohs_def) (metis swab16_swab16)
next
  case BIG_ENDIAN
  then show ?thesis
    by (simp add: htons_def ntohs_def)
qed

lemma passes_filters_unfair:
  assumes "protocol skb = htons bo ETH_P_IP"
    and "load_u8 (head skb) (skb_to_iphdr skb + iphdr_protocol) = IPPROTO_TCP"
  shows "trace_tcp_rcv_unfair bo sk (Some skb) \<noteq> None"
  using assms by (simp add: trace_tcp_rcv_unfair_def Let_def)

lemma passes_filters_runtime:
  assumes "skc_family sk = AF_INET"
    and "protocol skb = htons bo ETH_P_IP"
    and "load_u8 (head skb) (skb_to_iphdr skb + iphdr_protocol) = IPPROTO_TCP"
  shows "trace_tcp_rcv_runtime bo sk (Some skb) \<noteq> None"
  using assms by (simp add: trace_tcp_rcv_runtime_def Let_def)

lemma emitted_multiples_of_4:
  assumes "trace_tcp_rcv_runtime bo sk skb_ptr = Some pkt \<or>
           trace_tcp_rcv_unfair bo sk skb_ptr = Some pkt"
  shows "4 dvd unat (ihl_b pkt)" and "4 dvd unat (thl_b pkt)"
proof -
  from emitted_fields [OF assms] obtain x y :: u8
    where "ihl_b pkt = ucast x * 4" and "thl_b pkt = ucast y * 4"
    by blast
  then show "4 dvd unat (ihl_b pkt)" and "4 dvd unat (thl_b pkt)"
    by (simp_all only: unat_words_to_bytes dvd_triv_left)
qed

subsection \<open>The header lengths and the capture time, for every frame\<close>

text \<open>
  On a little-endian host the TCP header length of the record is always 0, since the mask
  \<^verbatim>\<open>0x0f\<close> is followed by a shift by 4. On a big-endian host it is four times the high
  nibble of the byte at offset 24 of the TCP header: \<^verbatim>\<open>&tcp->ack_seq + 4\<close> advances a
  pointer to a 32-bit field by four elements, 16 bytes past offset 8. The IP header length
  is four times the high nibble of the first byte of the IP header (the version) on a
  little-endian host and four times its low nibble (the IHL) on a big-endian one. The
  capture time is the timestamp divided by 1000000.
\<close>

lemma thl_b_little_endian:
  assumes "trace_tcp_rcv_runtime LITTLE_ENDIAN sk skb_ptr = Some pkt \<or>
           trace_tcp_rcv_unfair LITTLE_ENDIAN sk skb_ptr = Some pkt"
  shows "thl_b pkt = 0"
  using emitted_fields [OF assms] by (auto simp: low_mask_shifted_out)

lemma thl_b_big_endian:
  assumes "trace_tcp_rcv_runtime BIG_ENDIAN sk (Some skb) = Some pkt \<or>
           trace_tcp_rcv_unfair BIG_ENDIAN sk (Some skb) = Some pkt"
  shows "unat (thl_b pkt) = 4 * (unat (head skb (skb_to_tcphdr skb + 24)) div 16)"
proof -
  have a: "(skb_to_tcphdr skb + tcphdr_ack_seq) + 4 * sizeof_be32 = skb_to_tcphdr skb + 24"
    by (simp add: tcphdr_ack_seq_def sizeof_be32_def)
  from emitted_fields [OF assms]
  have "thl_b pkt = ucast (drop_bit 4 (bpf_probe_read (head skb)
          ((skb_to_tcphdr skb + tcphdr_ack_seq) + 4 * sizeof_be32) AND 0xf0)) * 4"
    by auto
  then show ?thesis
    by (simp only: a unat_words_to_bytes unat_high_nibble bpf_probe_read_def)
qed

lemma ihl_b_by_host:
  assumes "trace_tcp_rcv_runtime bo sk (Some skb) = Some pkt \<or>
           trace_tcp_rcv_unfair bo sk (Some skb) = Some pkt"
  shows "unat (ihl_b pkt) =
           (case bo of
              LITTLE_ENDIAN \<Rightarrow> 4 * (unat (head skb (skb_to_iphdr skb)) div 16)
            | BIG_ENDIAN \<Rightarrow> 4 * (unat (head skb (skb_to_iphdr skb)) mod 16))"
proof -
  have a: "(skb_to_iphdr skb + iphdr_tos) - 1 * sizeof_u8 = skb_to_iphdr skb"
    by (simp add: iphdr_tos_def sizeof_u8_def)
  from emitted_fields [OF assms]
  have "ihl_b pkt =
          ucast (case bo of
                   LITTLE_ENDIAN \<Rightarrow>
                     drop_bit 4 (bpf_probe_read (head skb)
                       ((skb_to_iphdr skb + iphdr_tos) - 1 * sizeof_u8) AND 0xf0)
                 | BIG_ENDIAN \<Rightarrow>
                     bpf_probe_read (head skb)
                       ((skb_to_iphdr skb + iphdr_tos) - 1 * sizeof_u8) AND 0x0f) * 4"
    by auto
  then show ?thesis
    by (simp only: a bpf_probe_read_def ihl_decoding)
qed

lemma time_us_by_million:
  assumes "trace_tcp_rcv_runtime bo sk (Some skb) = Some pkt \<or>
           trace_tcp_rcv_unfair bo sk (Some skb) = Some pkt"
  shows "unat (time_us pkt) = unat (tstamp skb) div 1000000"
proof -
  from emitted_fields [OF assms]
  have "time_us pkt = tstamp skb div 1000000" by auto
  then show ?thesis
    by (simp add: unat_div_distrib)
qed

text \<open>
  The total length of the record is the big-endian reading of the total-length field, and
  the payload length is that value minus the two header lengths of the record, in 32-bit
  arithmetic.
\<close>

lemma payload_b_from_frame:
  assumes "trace_tcp_rcv_runtime bo sk (Some skb) = Some pkt \<or>
           trace_tcp_rcv_unfair bo sk (Some skb) = Some pkt"
  shows "total_b pkt = ucast (get_be16 (head skb) (skb_to_iphdr skb + iphdr_tot_len))"
    and "payload_b pkt =
           ucast (get_be16 (head skb) (skb_to_iphdr skb + iphdr_tot_len))
             - ihl_b pkt - thl_b pkt"
proof -
  from emitted_fields [OF assms]
  have "total_b pkt =
          ucast (ntohs bo (load_u16 bo (head skb) (skb_to_iphdr skb + iphdr_tot_len)))"
    and "payload_b pkt = total_b pkt - ihl_b pkt - thl_b pkt"
    by auto
  then show "total_b pkt = ucast (get_be16 (head skb) (skb_to_iphdr skb + iphdr_tot_len))"
    and "payload_b pkt =
           ucast (get_be16 (head skb) (skb_to_iphdr skb + iphdr_tot_len))
             - ihl_b pkt - thl_b pkt"
    by (simp_all add: ntohs_load_u16)
qed

section \<open>The claims\<close>

subsection \<open>Connection state\<close>

text \<open>
  Claim C10. For every accepted frame, the smoothed-RTT field of the record is the
  socket's \<^verbatim>\<open>srtt_us\<close> shifted right by 3 bits, that is divided by 8 with truncation, and
  the timestamp value and echo fields are the socket's \<^verbatim>\<open>rcv_tsval\<close> and
  \<^verbatim>\<open>rcv_tsecr\<close> unchanged.
\<close>
theorem srtt_scaled_timestamps_copied:
  assumes "trace_tcp_rcv_runtime bo sk skb_ptr = Some pkt \<or>
           trace_tcp_rcv_unfair bo sk skb_ptr = Some pkt"
  shows "srtt_us pkt = drop_bit 3 (ts_srtt_us sk)
       \<and> unat (srtt_us pkt) = unat (ts_srtt_us sk) div 8
       \<and> tsval pkt = rcv_tsval sk
       \<and> tsecr pkt = rcv_tsecr sk"
proof -
  from emitted_fields [OF assms]
  have "srtt_us pkt = drop_bit 3 (ts_srtt_us sk)"
    and "tsval pkt = rcv_tsval sk" and "tsecr pkt = rcv_tsecr sk"
    by blast+
  moreover have "unat (drop_bit 3 (ts_srtt_us sk)) = unat (ts_srtt_us sk) div 8"
    by (simp add: drop_bit_eq_div unat_div_distrib)
  ultimately show ?thesis by simp
qed

theorem srtt_scaled_timestamps_copied_witness:
  "trace_tcp_rcv_runtime LITTLE_ENDIAN tcp_sock0 (Some (frame_skb LITTLE_ENDIAN ack_frame)) =
     Some (ack_pkt_le \<lparr> iv := 5 \<rparr>)
   \<and> trace_tcp_rcv_unfair BIG_ENDIAN tcp_sock0 (Some (frame_skb BIG_ENDIAN ack_frame)) =
     Some ack_pkt_be
   \<and> ts_srtt_us tcp_sock0 = 8005
   \<and> srtt_us (ack_pkt_le \<lparr> iv := 5 \<rparr>) = drop_bit 3 (ts_srtt_us tcp_sock0)
   \<and> unat (srtt_us (ack_pkt_le \<lparr> iv := 5 \<rparr>)) = 1000
   \<and> unat (srtt_us ack_pkt_be) = 1000
   \<and> tsval ack_pkt_be = rcv_tsval tcp_sock0
   \<and> tsecr ack_pkt_be = rcv_tsecr tcp_sock0"
  using srtt_scaled_timestamps_copied
          [of LITTLE_ENDIAN tcp_sock0 "Some (frame_skb LITTLE_ENDIAN ack_frame)"
              "ack_pkt_le \<lparr> iv := 5 \<rparr>"]
        srtt_scaled_timestamps_copied
          [of BIG_ENDIAN tcp_sock0 "Some (frame_skb BIG_ENDIAN ack_frame)" ack_pkt_be]
        runtime_ack_le unfair_ack_be
  by (simp add: pkt_defs tcp_sock0_def)

subsection \<open>Rejected frames\<close>

text \<open>
  Claim C9. When the frame pointer is null, or the frame's protocol is not IPv4, or the
  protocol field of the IP header is not TCP, neither function emits a record.
\<close>
theorem rejected_frames_emit_nothing:
  assumes "case skb_ptr of
             None \<Rightarrow> True
           | Some skb \<Rightarrow>
               ntohs bo (protocol skb) \<noteq> ETH_P_IP \<or>
               load_u8 (head skb) (skb_to_iphdr skb + iphdr_protocol) \<noteq> IPPROTO_TCP"
  shows "trace_tcp_rcv_runtime bo sk skb_ptr = None \<and> trace_tcp_rcv_unfair bo sk skb_ptr = None"
proof (cases skb_ptr)
  case None
  then show ?thesis
    by (simp add: trace_tcp_rcv_runtime_def trace_tcp_rcv_unfair_def)
next
  case (Some skb)
  with assms have "protocol skb \<noteq> htons bo ETH_P_IP \<or>
      load_u8 (head skb) (skb_to_iphdr skb + iphdr_protocol) \<noteq> IPPROTO_TCP"
    by (simp add: protocol_is_ipv4_iff)
  with Some show ?thesis
    by (auto simp: trace_tcp_rcv_runtime_def trace_tcp_rcv_unfair_def Let_def)
qed

theorem rejected_frames_emit_nothing_witness:
  "trace_tcp_rcv_runtime LITTLE_ENDIAN tcp_sock0 None = None
   \<and> trace_tcp_rcv_unfair LITTLE_ENDIAN tcp_sock0 None = None
   \<and> ntohs LITTLE_ENDIAN (protocol (arp_skb LITTLE_ENDIAN)) \<noteq> ETH_P_IP
   \<and> trace_tcp_rcv_runtime LITTLE_ENDIAN tcp_sock0 (Some (arp_skb LITTLE_ENDIAN)) = None
   \<and> trace_tcp_rcv_unfair LITTLE_ENDIAN tcp_sock0 (Some (arp_skb LITTLE_ENDIAN)) = None
   \<and> ntohs BIG_ENDIAN (protocol (frame_skb BIG_ENDIAN udp_frame)) = ETH_P_IP
   \<and> load_u8 (head (frame_skb BIG_ENDIAN udp_frame))
        (skb_to_iphdr (frame_skb BIG_ENDIAN udp_frame) + iphdr_protocol) = 17
   \<and> trace_tcp_rcv_runtime BIG_ENDIAN tcp_sock0 (Some (frame_skb BIG_ENDIAN udp_frame)) = None
   \<and> trace_tcp_rcv_unfair BIG_ENDIAN tcp_sock0 (Some (frame_skb BIG_ENDIAN udp_frame)) = None"
  using rejected_frames_emit_nothing
          [where skb_ptr = None and bo = LITTLE_ENDIAN and sk = tcp_sock0]
        rejected_frames_emit_nothing
          [where skb_ptr = "Some (arp_skb LITTLE_ENDIAN)" and bo = LITTLE_ENDIAN
             and sk = tcp_sock0]
        rejected_frames_emit_nothing
          [where skb_ptr = "Some (frame_skb BIG_ENDIAN udp_frame)" and bo = BIG_ENDIAN
             and sk = tcp_sock0]
  by (simp add: frame_defs ntohs_def htons_def swab16_def ETH_P_IP_def IPPROTO_TCP_def
        load_u8_def skb_to_iphdr_def iphdr_protocol_def)

subsection \<open>Payload length below the header lengths\<close>

text \<open>
  Claim C3, as the code has it. The subtraction is done in unsigned 32-bit arithmetic
  with no guard: for every accepted frame whose decoded total length is strictly less
  than the sum of the decoded IP and TCP header lengths, the record is emitted all the
  same and its payload-length field holds \<open>2 ^ 32 + total - ihl - thl\<close>. The field is
  neither clamped to 0 nor is the frame dropped.
\<close>

theorem payload_wraps_on_underflow:
  assumes "trace_tcp_rcv_runtime bo sk skb_ptr = Some pkt \<or>
           trace_tcp_rcv_unfair bo sk skb_ptr = Some pkt"
    and "uint (total_b pkt) < uint (ihl_b pkt) + uint (thl_b pkt)"
  shows "uint (payload_b pkt) =
           2 ^ 32 + uint (total_b pkt) - uint (ihl_b pkt) - uint (thl_b pkt)"
proof -
  from emitted_fields [OF assms(1)]
  have eq: "payload_b pkt = total_b pkt - ihl_b pkt - thl_b pkt" by blast
  have "int (unat (ihl_b pkt)) \<le> 60" and "int (unat (thl_b pkt)) \<le> 60"
    using emitted_bounds(2,3) [OF assms(1)] by linarith+
  then have i: "uint (ihl_b pkt) \<le> 60" and h: "uint (thl_b pkt) \<le> 60"
    by (simp_all only: uint_nat)
  show ?thesis
  proof (cases "uint (ihl_b pkt) \<le> uint (total_b pkt)")
    case True
    then have "uint (total_b pkt - ihl_b pkt) = uint (total_b pkt) - uint (ihl_b pkt)"
      by (simp add: uint_sub_if')
    with assms(2) show ?thesis
      by (simp add: eq uint_sub_if' [of "total_b pkt - ihl_b pkt"])
  next
    case False
    then have "uint (total_b pkt - ihl_b pkt) =
        uint (total_b pkt) - uint (ihl_b pkt) + 4294967296"
      by (simp add: uint_sub_if')
    moreover from this i h have "uint (thl_b pkt) \<le> uint (total_b pkt - ihl_b pkt)"
      using uint_ge_0 [of "total_b pkt"] by linarith
    ultimately show ?thesis
      by (simp add: eq uint_sub_if' [of "total_b pkt - ihl_b pkt"])
  qed
qed

theorem payload_wraps_on_underflow_witness:
  "trace_tcp_rcv_unfair LITTLE_ENDIAN tcp_sock0
     (Some (frame_skb LITTLE_ENDIAN tiny_total_frame)) = Some tiny_pkt_le
   \<and> uint (total_b tiny_pkt_le) < uint (ihl_b tiny_pkt_le) + uint (thl_b tiny_pkt_le)
   \<and> uint (payload_b tiny_pkt_le) = 2 ^ 32 + 10 - 16 - 0"
  using payload_wraps_on_underflow
          [of LITTLE_ENDIAN tcp_sock0 "Some (frame_skb LITTLE_ENDIAN tiny_total_frame)"
              tiny_pkt_le]
        unfair_tiny_le
  by (simp add: pkt_defs)

text \<open>
  The statement that such a frame gives a payload length of 0 or no record fails on
  \<open>tiny_total_frame\<close>, whose total length field says 10: on a little-endian host both
  functions emit a record with total length 10, IP header length 16, TCP header length 0
  and payload length \<open>0xFFFFFFFA\<close>.
\<close>

theorem payload_underflow_counterexample:
  "trace_tcp_rcv_unfair LITTLE_ENDIAN tcp_sock0
     (Some (frame_skb LITTLE_ENDIAN tiny_total_frame)) = Some tiny_pkt_le
   \<and> trace_tcp_rcv_runtime LITTLE_ENDIAN tcp_sock0
     (Some (frame_skb LITTLE_ENDIAN tiny_total_frame)) = Some (tiny_pkt_le \<lparr> iv := 5 \<rparr>)
   \<and> total_b tiny_pkt_le = 10 \<and> ihl_b tiny_pkt_le = 16 \<and> thl_b tiny_pkt_le = 0
   \<and> payload_b tiny_pkt_le = 0xFFFFFFFA
   \<and> payload_b tiny_pkt_le \<noteq> 0"
  using unfair_tiny_le runtime_tiny_le by (simp add: pkt_defs)

subsection \<open>Captured length\<close>

text \<open>
  Claim C5, as the code has it. Neither function checks a bound before it reads the
  headers. For every frame whose declared IP or TCP header length (four times the IHL
  nibble, four times the data-offset nibble) reaches past the end of the captured data
  \<^verbatim>\<open>skb->tail\<close>, and which passes the IPv4 and TCP tests, the body of
  \<^verbatim>\<open>src/unfair/runtime/unfair_runtime.c\<close> emits a record all the same, on any socket; the
  body of \<^verbatim>\<open>src/runtime/unfair_runtime.c\<close> does so when the socket's family is
  \<^verbatim>\<open>AF_INET\<close>, the one further test it makes.
\<close>

theorem no_bounds_check:
  assumes "ntohs bo (protocol skb) = ETH_P_IP"
    and "load_u8 (head skb) (skb_to_iphdr skb + iphdr_protocol) = IPPROTO_TCP"
    and "unat (tail skb) <
           skb_to_iphdr skb + 4 * unat (head skb (skb_to_iphdr skb) AND 0x0f)
         \<or> unat (tail skb) <
           skb_to_tcphdr skb +
             4 * unat (drop_bit 4 (head skb (skb_to_tcphdr skb + tcphdr_doff)))"
  shows "trace_tcp_rcv_unfair bo sk (Some skb) \<noteq> None
       \<and> (skc_family sk = AF_INET \<longrightarrow> trace_tcp_rcv_runtime bo sk (Some skb) \<noteq> None)"
proof -
  from assms(1) have p: "protocol skb = htons bo ETH_P_IP"
    by (simp add: protocol_is_ipv4_iff)
  show ?thesis
    using passes_filters_unfair [OF p assms(2)] passes_filters_runtime [OF _ p assms(2)]
    by blast
qed

theorem no_bounds_check_witness:
  "ntohs LITTLE_ENDIAN (protocol (frame_skb LITTLE_ENDIAN truncated_frame)) = ETH_P_IP
   \<and> load_u8 (head (frame_skb LITTLE_ENDIAN truncated_frame))
        (skb_to_iphdr (frame_skb LITTLE_ENDIAN truncated_frame) + iphdr_protocol) =
      IPPROTO_TCP
   \<and> unat (tail (frame_skb LITTLE_ENDIAN truncated_frame)) = 24
   \<and> skb_to_iphdr (frame_skb LITTLE_ENDIAN truncated_frame) +
        4 * unat (head (frame_skb LITTLE_ENDIAN truncated_frame)
                    (skb_to_iphdr (frame_skb LITTLE_ENDIAN truncated_frame)) AND 0x0f) = 34
   \<and> skc_family tcp_sock0 = AF_INET
   \<and> trace_tcp_rcv_unfair LITTLE_ENDIAN tcp_sock0
        (Some (frame_skb LITTLE_ENDIAN truncated_frame)) \<noteq> None
   \<and> trace_tcp_rcv_runtime LITTLE_ENDIAN tcp_sock0
        (Some (frame_skb LITTLE_ENDIAN truncated_frame)) \<noteq> None
   \<and> skc_family (tcp_sock0 \<lparr> skc_family := 10 \<rparr>) \<noteq> AF_INET
   \<and> trace_tcp_rcv_unfair LITTLE_ENDIAN (tcp_sock0 \<lparr> skc_family := 10 \<rparr>)
        (Some (frame_skb LITTLE_ENDIAN truncated_frame)) \<noteq> None"
proof -
  let ?skb = "frame_skb LITTLE_ENDIAN truncated_frame"
  have a: "ntohs LITTLE_ENDIAN (protocol ?skb) = ETH_P_IP"
    by (simp add: frame_skb_def ntohs_def htons_def swab16_def ETH_P_IP_def)
  have b: "load_u8 (head ?skb) (skb_to_iphdr ?skb + iphdr_protocol) = IPPROTO_TCP"
    by (simp add: frame_defs load_u8_def skb_to_iphdr_def iphdr_protocol_def IPPROTO_TCP_def)
  have t: "unat (tail ?skb) = 24"
    by (simp add: frame_defs)
  have d: "skb_to_iphdr ?skb + 4 * unat (head ?skb (skb_to_iphdr ?skb) AND 0x0f) = 34"
    by (simp add: frame_defs skb_to_iphdr_def)
  from t d have c: "unat (tail ?skb) <
           skb_to_iphdr ?skb + 4 * unat (head ?skb (skb_to_iphdr ?skb) AND 0x0f)
         \<or> unat (tail ?skb) <
           skb_to_tcphdr ?skb +
             4 * unat (drop_bit 4 (head ?skb (skb_to_tcphdr ?skb + tcphdr_doff)))"
    by simp
  have f: "skc_family tcp_sock0 = AF_INET"
    by (simp add: tcp_sock0_def)
  have g: "skc_family (tcp_sock0 \<lparr> skc_family := 10 \<rparr>) \<noteq> AF_INET"
    by (simp add: AF_INET_def)
  from no_bounds_check [OF a b c, of tcp_sock0]
       no_bounds_check [OF a b c, of "tcp_sock0 \<lparr> skc_family := 10 \<rparr>"]
       a b t d f g
  show ?thesis by blast
qed

text \<open>
  The statement that a frame whose declared header length exceeds the captured bytes
  yields no record fails on \<open>truncated_frame\<close>: 24 bytes are captured, the IP header
  starts at offset 14 and declares 20 bytes, and both functions emit a record on either
  host.
\<close>

theorem truncated_frame_counterexample:
  "unat (tail (frame_skb BIG_ENDIAN truncated_frame)) = 24
   \<and> skb_to_iphdr (frame_skb BIG_ENDIAN truncated_frame) = 14
   \<and> 4 * unat (head (frame_skb BIG_ENDIAN truncated_frame) 14 AND 0x0f) = 20
   \<and> map_option ihl_b
        (trace_tcp_rcv_runtime BIG_ENDIAN tcp_sock0
           (Some (frame_skb BIG_ENDIAN truncated_frame))) = Some 20
   \<and> map_option ihl_b
        (trace_tcp_rcv_unfair BIG_ENDIAN tcp_sock0
           (Some (frame_skb BIG_ENDIAN truncated_frame))) = Some 20
   \<and> trace_tcp_rcv_runtime LITTLE_ENDIAN tcp_sock0
        (Some (frame_skb LITTLE_ENDIAN truncated_frame)) \<noteq> None
   \<and> trace_tcp_rcv_unfair LITTLE_ENDIAN tcp_sock0
        (Some (frame_skb LITTLE_ENDIAN truncated_frame)) \<noteq> None"
  by (simp add: code_defs frame_defs)

subsection \<open>Header lengths out of range\<close>

text \<open>
  Claim C6, as the code has it. The decoded header lengths are not validated: every frame
  that passes the IPv4 and TCP tests yields a record whatever its nibbles are, from the
  body of \<^verbatim>\<open>src/unfair/runtime/unfair_runtime.c\<close> on any socket and from the body of
  \<^verbatim>\<open>src/runtime/unfair_runtime.c\<close> when the socket's family is \<^verbatim>\<open>AF_INET\<close>. The IP and
  TCP header lengths placed in the record are multiples of 4 between 0 and 60; values
  below 20 are not rejected.
\<close>

theorem header_lengths_not_validated:
  assumes "ntohs bo (protocol skb) = ETH_P_IP"
    and "load_u8 (head skb) (skb_to_iphdr skb + iphdr_protocol) = IPPROTO_TCP"
  shows "(\<exists>pkt. trace_tcp_rcv_unfair bo sk (Some skb) = Some pkt
            \<and> unat (ihl_b pkt) \<le> 60 \<and> 4 dvd unat (ihl_b pkt)
            \<and> unat (thl_b pkt) \<le> 60 \<and> 4 dvd unat (thl_b pkt))
       \<and> (skc_family sk = AF_INET \<longrightarrow>
           (\<exists>pkt. trace_tcp_rcv_runtime bo sk (Some skb) = Some pkt
            \<and> unat (ihl_b pkt) \<le> 60 \<and> 4 dvd unat (ihl_b pkt)
            \<and> unat (thl_b pkt) \<le> 60 \<and> 4 dvd unat (thl_b pkt)))"
proof -
  from assms(1) have p: "protocol skb = htons bo ETH_P_IP"
    by (simp add: protocol_is_ipv4_iff)
  from passes_filters_unfair [OF p assms(2)]
  obtain pkt2 where u: "trace_tcp_rcv_unfair bo sk (Some skb) = Some pkt2"
    by blast
  have unfair: "unat (ihl_b pkt2) \<le> 60" "4 dvd unat (ihl_b pkt2)"
       "unat (thl_b pkt2) \<le> 60" "4 dvd unat (thl_b pkt2)"
    using emitted_bounds(2,3) [OF disjI2, OF u] emitted_multiples_of_4 [OF disjI2, OF u]
    by blast+
  have runtime: "\<exists>pkt. trace_tcp_rcv_runtime bo sk (Some skb) = Some pkt
            \<and> unat (ihl_b pkt) \<le> 60 \<and> 4 dvd unat (ihl_b pkt)
            \<and> unat (thl_b pkt) \<le> 60 \<and> 4 dvd unat (thl_b pkt)"
    if fam: "skc_family sk = AF_INET"
  proof -
    from passes_filters_runtime [OF fam p assms(2)]
    obtain pkt1 where r: "trace_tcp_rcv_runtime bo sk (Some skb) = Some pkt1"
      by blast
    have "unat (ihl_b pkt1) \<le> 60" "4 dvd unat (ihl_b pkt1)"
         "unat (thl_b pkt1) \<le> 60" "4 dvd unat (thl_b pkt1)"
      using emitted_bounds(2,3) [OF disjI1, OF r] emitted_multiples_of_4 [OF disjI1, OF r]
      by blast+
    with r show ?thesis by blast
  qed
  from u unfair runtime show ?thesis
    by blast
qed

theorem header_lengths_not_validated_witness:
  "ntohs BIG_ENDIAN (protocol (frame_skb BIG_ENDIAN short_ihl_frame)) = ETH_P_IP
   \<and> load_u8 (head (frame_skb BIG_ENDIAN short_ihl_frame))
        (skb_to_iphdr (frame_skb BIG_ENDIAN short_ihl_frame) + iphdr_protocol) = IPPROTO_TCP
   \<and> skc_family tcp_sock0 = AF_INET
   \<and> (\<exists>pkt. trace_tcp_rcv_unfair BIG_ENDIAN tcp_sock0
                (Some (frame_skb BIG_ENDIAN short_ihl_frame)) = Some pkt
            \<and> unat (ihl_b pkt) \<le> 60 \<and> 4 dvd unat (ihl_b pkt)
            \<and> unat (thl_b pkt) \<le> 60 \<and> 4 dvd unat (thl_b pkt))
   \<and> (\<exists>pkt. trace_tcp_rcv_runtime BIG_ENDIAN tcp_sock0
                (Some (frame_skb BIG_ENDIAN short_ihl_frame)) = Some pkt
            \<and> unat (ihl_b pkt) \<le> 60 \<and> 4 dvd unat (ihl_b pkt)
            \<and> unat (thl_b pkt) \<le> 60 \<and> 4 dvd unat (thl_b pkt))
   \<and> skc_family (tcp_sock0 \<lparr> skc_family := 10 \<rparr>) \<noteq> AF_INET
   \<and> (\<exists>pkt. trace_tcp_rcv_unfair BIG_ENDIAN (tcp_sock0 \<lparr> skc_family := 10 \<rparr>)
                (Some (frame_skb BIG_ENDIAN short_ihl_frame)) = Some pkt
            \<and> unat (ihl_b pkt) \<le> 60 \<and> 4 dvd unat (ihl_b pkt)
            \<and> unat (thl_b pkt) \<le> 60 \<and> 4 dvd unat (thl_b pkt))"
proof -
  have a: "ntohs BIG_ENDIAN (protocol (frame_skb BIG_ENDIAN short_ihl_frame)) = ETH_P_IP"
    by (simp add: frame_skb_def ntohs_def htons_def)
  have b: "load_u8 (head (frame_skb BIG_ENDIAN short_ihl_frame))
        (skb_to_iphdr (frame_skb BIG_ENDIAN short_ihl_frame) + iphdr_protocol) = IPPROTO_TCP"
    by (simp add: frame_defs load_u8_def skb_to_iphdr_def iphdr_protocol_def IPPROTO_TCP_def)
  have f: "skc_family tcp_sock0 = AF_INET"
    by (simp add: tcp_sock0_def)
  have g: "skc_family (tcp_sock0 \<lparr> skc_family := 10 \<rparr>) \<noteq> AF_INET"
    by (simp add: AF_INET_def)
  from header_lengths_not_validated [OF a b, of tcp_sock0]
       header_lengths_not_validated [OF a b, of "tcp_sock0 \<lparr> skc_family := 10 \<rparr>"]
       a b f g
  show ?thesis by blast
qed

text \<open>
  The statement that a decoded header length outside 20..60 makes the function emit
  nothing fails on \<open>short_ihl_frame\<close>, whose IHL nibble is 2: a record is emitted with an
  IP header length of 8 on a big-endian host (and of 16 on a little-endian host).
\<close>

theorem short_ihl_counterexample:
  "map_option ihl_b
     (trace_tcp_rcv_runtime BIG_ENDIAN tcp_sock0
        (Some (frame_skb BIG_ENDIAN short_ihl_frame))) = Some 8
   \<and> map_option ihl_b
     (trace_tcp_rcv_unfair BIG_ENDIAN tcp_sock0
        (Some (frame_skb BIG_ENDIAN short_ihl_frame))) = Some 8
   \<and> map_option ihl_b
     (trace_tcp_rcv_runtime LITTLE_ENDIAN tcp_sock0
        (Some (frame_skb LITTLE_ENDIAN short_ihl_frame))) = Some 16
   \<and> map_option ihl_b
     (trace_tcp_rcv_unfair LITTLE_ENDIAN tcp_sock0
        (Some (frame_skb LITTLE_ENDIAN short_ihl_frame))) = Some 16"
  by (simp add: code_defs frame_defs)

subsection \<open>Byte order of the ports and the sequence number\<close>

text \<open>
  Claim C7, as the code has it. For every accepted frame the source and destination ports
  of the record are the header fields converted from network to host byte order
  (\<^verbatim>\<open>ntohs\<close>, a 16-bit swap on a little-endian host), so they hold the values the wire
  format gives them. The sequence number is copied as the host loads it, with no 32-bit
  swap: it holds the wire value on a big-endian host and the byte-reversed wire value on
  a little-endian host, as the two addresses do.
\<close>

theorem ports_host_order_seq_as_loaded:
  assumes "trace_tcp_rcv_runtime bo sk (Some skb) = Some pkt \<or>
           trace_tcp_rcv_unfair bo sk (Some skb) = Some pkt"
  shows "sport pkt = get_be16 (head skb) (skb_to_tcphdr skb + tcphdr_source)
       \<and> dport pkt = get_be16 (head skb) (skb_to_tcphdr skb + tcphdr_dest)
       \<and> seq pkt = (case bo of
                      LITTLE_ENDIAN \<Rightarrow> get_le32 (head skb) (skb_to_tcphdr skb + tcphdr_seq)
                    | BIG_ENDIAN \<Rightarrow> get_be32 (head skb) (skb_to_tcphdr skb + tcphdr_seq))"
proof -
  from emitted_fields [OF assms]
  have "sport pkt = ntohs bo (load_u16 bo (head skb) (skb_to_tcphdr skb + tcphdr_source))"
    and "dport pkt = ntohs bo (load_u16 bo (head skb) (skb_to_tcphdr skb + tcphdr_dest))"
    and "seq pkt = load_u32 bo (head skb) (skb_to_tcphdr skb + tcphdr_seq)"
    by auto
  then show ?thesis
    by (simp add: ntohs_load_u16 load_u32_def)
qed

theorem ports_host_order_seq_as_loaded_witness:
  "trace_tcp_rcv_runtime LITTLE_ENDIAN tcp_sock0 (Some (frame_skb LITTLE_ENDIAN ack_frame)) =
     Some (ack_pkt_le \<lparr> iv := 5 \<rparr>)
   \<and> trace_tcp_rcv_unfair BIG_ENDIAN tcp_sock0 (Some (frame_skb BIG_ENDIAN ack_frame)) =
     Some ack_pkt_be
   \<and> get_be16 (mem_of ack_frame) 34 = 12345 \<and> get_be16 (mem_of ack_frame) 36 = 80
   \<and> get_le32 (mem_of ack_frame) 38 = 0x01000000 \<and> get_be32 (mem_of ack_frame) 38 = 1
   \<and> sport (ack_pkt_le \<lparr> iv := 5 \<rparr>) = 12345 \<and> dport (ack_pkt_le \<lparr> iv := 5 \<rparr>) = 80
   \<and> seq (ack_pkt_le \<lparr> iv := 5 \<rparr>) = 0x01000000
   \<and> sport ack_pkt_be = 12345 \<and> dport ack_pkt_be = 80 \<and> seq ack_pkt_be = 1"
  using ports_host_order_seq_as_loaded
          [of LITTLE_ENDIAN tcp_sock0 "frame_skb LITTLE_ENDIAN ack_frame"
              "ack_pkt_le \<lparr> iv := 5 \<rparr>"]
        ports_host_order_seq_as_loaded
          [of BIG_ENDIAN tcp_sock0 "frame_skb BIG_ENDIAN ack_frame" ack_pkt_be]
        runtime_ack_le unfair_ack_be
  by (simp add: pkt_defs frame_defs get_be16_def get_le32_def get_be32_def)

text \<open>
  The statement that the sequence number is converted to host byte order fails on
  \<open>ack_frame\<close>, whose sequence number is 1: on a little-endian host both functions put
  \<open>0x01000000\<close> in the record.
\<close>

theorem seq_not_swapped_counterexample:
  "get_be32 (head (frame_skb LITTLE_ENDIAN ack_frame))
     (skb_to_tcphdr (frame_skb LITTLE_ENDIAN ack_frame) + tcphdr_seq) = 1
   \<and> map_option seq
        (trace_tcp_rcv_runtime LITTLE_ENDIAN tcp_sock0
           (Some (frame_skb LITTLE_ENDIAN ack_frame))) = Some 0x01000000
   \<and> map_option seq
        (trace_tcp_rcv_unfair LITTLE_ENDIAN tcp_sock0
           (Some (frame_skb LITTLE_ENDIAN ack_frame))) = Some 0x01000000
   \<and> (0x01000000 :: u32) \<noteq> 1"
  by (simp add: runtime_ack_le unfair_ack_le pkt_defs)
     (simp add: frame_defs get_be32_def skb_to_tcphdr_def tcphdr_seq_def)

subsection \<open>TCP header length\<close>

text \<open>
  Claim C1 says that for an accepted frame whose TCP data-offset nibble (the high nibble
  of the byte after the acknowledgment number, at offset 12 of the TCP header) is \<open>n\<close>,
  with \<open>n\<close> from 5 to 15, the TCP header length of the record is \<open>4 * n\<close> on any host.
  The code does not compute this. On a little-endian host \<open>ack_frame\<close>, with data offset
  5, gives a TCP header length of 0 and not 20; on a big-endian host \<open>data_frame\<close>, with
  data offset 8, gives 4 and not 32.
\<close>

theorem tcp_header_length_failing_input:
  "head (frame_skb LITTLE_ENDIAN ack_frame)
     (skb_to_tcphdr (frame_skb LITTLE_ENDIAN ack_frame) + tcphdr_doff) = 0x50
   \<and> map_option thl_b
        (trace_tcp_rcv_runtime LITTLE_ENDIAN tcp_sock0
           (Some (frame_skb LITTLE_ENDIAN ack_frame))) = Some 0
   \<and> map_option thl_b
        (trace_tcp_rcv_unfair LITTLE_ENDIAN tcp_sock0
           (Some (frame_skb LITTLE_ENDIAN ack_frame))) = Some 0
   \<and> head (frame_skb BIG_ENDIAN data_frame)
        (skb_to_tcphdr (frame_skb BIG_ENDIAN data_frame) + tcphdr_doff) = 0x80
   \<and> map_option thl_b
        (trace_tcp_rcv_runtime BIG_ENDIAN tcp_sock0
           (Some (frame_skb BIG_ENDIAN data_frame))) = Some 4
   \<and> map_option thl_b
        (trace_tcp_rcv_unfair BIG_ENDIAN tcp_sock0
           (Some (frame_skb BIG_ENDIAN data_frame))) = Some 4"
  by (simp add: code_defs frame_defs)

subsection \<open>IP header length\<close>

text \<open>
  Claim C2 says that for an accepted frame whose IHL nibble (the low nibble of the first
  byte of the IP header) is \<open>n\<close>, with \<open>n\<close> from 5 to 15, the IP header length of the
  record is \<open>4 * n\<close> on any host. On a little-endian host the code takes the high nibble,
  the version: \<open>ack_frame\<close>, whose first IP byte is \<open>0x45\<close>, gives an IP header length of
  16 and not 20.
\<close>

theorem ip_header_length_failing_input:
  "head (frame_skb LITTLE_ENDIAN ack_frame)
     (skb_to_iphdr (frame_skb LITTLE_ENDIAN ack_frame)) = 0x45
   \<and> map_option ihl_b
        (trace_tcp_rcv_runtime LITTLE_ENDIAN tcp_sock0
           (Some (frame_skb LITTLE_ENDIAN ack_frame))) = Some 16
   \<and> map_option ihl_b
        (trace_tcp_rcv_unfair LITTLE_ENDIAN tcp_sock0
           (Some (frame_skb LITTLE_ENDIAN ack_frame))) = Some 16"
  by (simp add: code_defs frame_defs)

subsection \<open>Capture time\<close>

text \<open>
  Claim C4 says that the capture-time field of the record is the capture timestamp in
  nanoseconds divided by 1000, truncated. The code divides by 1000000: a timestamp of
  1000000500 ns is recorded as 1000 and not as 1000000.
\<close>

theorem capture_time_failing_input:
  "tstamp (frame_skb LITTLE_ENDIAN ack_frame) = 1000000500
   \<and> map_option time_us
        (trace_tcp_rcv_runtime LITTLE_ENDIAN tcp_sock0
           (Some (frame_skb LITTLE_ENDIAN ack_frame))) = Some 1000
   \<and> map_option time_us
        (trace_tcp_rcv_unfair LITTLE_ENDIAN tcp_sock0
           (Some (frame_skb LITTLE_ENDIAN ack_frame))) = Some 1000
   \<and> (1000000500 :: u64) div 1000 = 1000000"
  by (simp add: code_defs frame_defs)

subsection \<open>Payload length\<close>

text \<open>
  Claim C8 says that for an accepted frame whose total length is at least the sum of its
  IP and TCP header lengths, the payload-length field of the record is the total length
  minus the IP header length minus the TCP header length. The subtraction is the one of
  the claim, but the two header lengths it subtracts are the wrongly decoded ones of
  claims C1 and C2. \<open>data_frame\<close> has total length 1500, IHL 5 and data offset 8, so
  its payload is 1448 bytes: both functions record 1484 on a little-endian host
  (1500 - 16 - 0) and 1476 on a big-endian host (1500 - 20 - 4).
\<close>

theorem payload_length_failing_input:
  "get_be16 (mem_of data_frame) (14 + iphdr_tot_len) = 1500
   \<and> mem_of data_frame 14 AND 0x0f = 5
   \<and> drop_bit 4 (mem_of data_frame (34 + tcphdr_doff)) = 8
   \<and> map_option payload_b
        (trace_tcp_rcv_runtime LITTLE_ENDIAN tcp_sock0
           (Some (frame_skb LITTLE_ENDIAN data_frame))) = Some 1484
   \<and> map_option payload_b
        (trace_tcp_rcv_unfair LITTLE_ENDIAN tcp_sock0
           (Some (frame_skb LITTLE_ENDIAN data_frame))) = Some 1484
   \<and> map_option payload_b
        (trace_tcp_rcv_runtime BIG_ENDIAN tcp_sock0
           (Some (frame_skb BIG_ENDIAN data_frame))) = Some 1476
   \<and> map_option payload_b
        (trace_tcp_rcv_unfair BIG_ENDIAN tcp_sock0
           (Some (frame_skb BIG_ENDIAN data_frame))) = Some 1476
   \<and> (1500 - 4 * 5 - 4 * 8 :: int) = 1448"
  by (simp add: code_defs frame_defs)

end
